theory Spec2Isabelle
  imports Complex_Main "HOL-Library.Char_ord" "HOL-Library.List_Lexorder" "HOL-Library.Multiset"
begin

section \<open>Python values and exceptions\<close>

text \<open>
  The module \<^verbatim>\<open>sc2reader/objects.py\<close> is Python 2 code (it hands a text string to
  \<^verbatim>\<open>hashlib.sha256\<close>). Strings and byte buffers are lists of 8-bit characters, Python's
  unbounded integers are \<open>int\<close>, and unsigned values read from a buffer are \<open>nat\<close>. Every
  exception the code can raise is a value of \<open>py_error\<close>; a computation that may raise returns
  \<open>py_error + 'a\<close>, with \<open>Inl\<close> for the exception.
\<close>

datatype py_error =
    KeyError
  | ValueError
  | IndexError
  | AttributeError
  | UnicodeDecodeError
  | Truncated
  | InconsistentInput

definition bind_err :: "'e + 'a \<Rightarrow> ('a \<Rightarrow> 'e + 'b) \<Rightarrow> 'e + 'b" where
  "bind_err x f = (case x of Inl e \<Rightarrow> Inl e | Inr v \<Rightarrow> f v)"

text \<open>Subscription \<^verbatim>\<open>d[k]\<close> of a dictionary and \<^verbatim>\<open>xs[i]\<close> of a list (index from the front).\<close>

definition py_getitem :: "('k \<rightharpoonup> 'v) \<Rightarrow> 'k \<Rightarrow> py_error + 'v" where
  "py_getitem d k = (case d k of None \<Rightarrow> Inl KeyError | Some v \<Rightarrow> Inr v)"

definition py_index :: "'a list \<Rightarrow> nat \<Rightarrow> py_error + 'a" where
  "py_index xs i = (if i < length xs then Inr (xs ! i) else Inl IndexError)"

text \<open>\<^verbatim>\<open>s.strip(chars)\<close>: the characters of \<open>chars\<close> are removed from both ends.\<close>

definition py_strip :: "string \<Rightarrow> string \<Rightarrow> string" where
  "py_strip chars s =
     rev (dropWhile (\<lambda>c. c \<in> set chars) (rev (dropWhile (\<lambda>c. c \<in> set chars) s)))"

text \<open>\<^verbatim>\<open>s.split(sep)\<close> for a separator of one character: never an empty list.\<close>

fun py_split :: "char \<Rightarrow> string \<Rightarrow> string list" where
  "py_split sep [] = [[]]"
| "py_split sep (c # cs) =
     (if c = sep then [] # py_split sep cs
      else (case py_split sep cs of [] \<Rightarrow> [[c]] | p # ps \<Rightarrow> (c # p) # ps))"


text \<open>
  \<^verbatim>\<open>int(s)\<close> on ASCII text, as Python 2 reads it: surrounding white space is dropped, one
  sign is allowed, and what remains must be a non-empty run of decimal digits; anything else
  raises \<^verbatim>\<open>ValueError\<close>.
\<close>

definition whitespace :: string where
  "whitespace = [CHR '' '', CHR 0x09, CHR 0x0A, CHR 0x0B, CHR 0x0C, CHR 0x0D]"

definition is_digit :: "char \<Rightarrow> bool" where
  "is_digit c = (48 \<le> (of_char c :: nat) \<and> (of_char c :: nat) \<le> 57)"

fun digits_value :: "string \<Rightarrow> nat \<Rightarrow> nat" where
  "digits_value [] acc = acc"
| "digits_value (c # cs) acc = digits_value cs (10 * acc + (of_char c - 48))"

definition py_int :: "string \<Rightarrow> py_error + int" where
  "py_int s =
     (let t = py_strip whitespace s;
          neg = (case t of [] \<Rightarrow> False | c # r \<Rightarrow> c = CHR ''-'');
          ds = (case t of [] \<Rightarrow> [] | c # r \<Rightarrow> if c = CHR ''-'' \<or> c = CHR ''+'' then r else t)
      in if ds \<noteq> [] \<and> list_all is_digit ds
         then Inr (if neg then - int (digits_value ds 0) else int (digits_value ds 0))
         else Inl ValueError)"

text \<open>\<^verbatim>\<open>str(i)\<close> of an integer, which is also how \<^verbatim>\<open>format\<close> renders it.\<close>

fun nat_digits :: "nat \<Rightarrow> string" where
  "nat_digits n =
     (if n < 10 then [char_of (48 + n)]
      else nat_digits (n div 10) @ [char_of (48 + n mod 10)])"

declare nat_digits.simps [simp del]

definition py_str_int :: "int \<Rightarrow> string" where
  "py_str_int i = (if i < 0 then CHR ''-'' # nat_digits (nat (- i)) else nat_digits (nat i))"

text \<open>A record handed to the logger: the level and the message.\<close>

datatype log_level = Info | Warn

type_synonym log_record = "log_level \<times> string"

section \<open>Attribute\<close>

text \<open>
  \<^verbatim>\<open>LOBBY_PROPERTIES\<close> comes from \<^verbatim>\<open>sc2reader.constants\<close>, which is not part of this
  file: it is a parameter, a dictionary from attribute ids to a name and a value table.
\<close>

text \<open>The key \<^verbatim>\<open>value.strip("\x00 ")[::-1]\<close> of line 79.\<close>

definition lobby_key :: "string \<Rightarrow> string" where
  "lobby_key val = rev (py_strip [CHR 0x00, CHR '' ''] val)"

record Attribute =
  attr_header :: int
  attr_id :: int
  attr_player :: int
  attr_name :: string
  attr_value :: "string option"

definition Attribute_init ::
  "(int \<rightharpoonup> string \<times> (string \<rightharpoonup> string)) \<Rightarrow> int \<Rightarrow> int \<Rightarrow> int \<Rightarrow> string
     \<Rightarrow> py_error + Attribute \<times> log_record list" where
  "Attribute_init LOBBY_PROPERTIES header attr_id' player val =
     (case LOBBY_PROPERTIES attr_id' of
        None \<Rightarrow>
          Inr (\<lparr>attr_header = header, attr_id = attr_id', attr_player = player,
                attr_name = ''Unknown'', attr_value = None\<rparr>,
               [(Info, ''Unknown attribute id: '' @ py_str_int attr_id')])
      | Some (name', lookup) \<Rightarrow>
          bind_err (py_getitem lookup (lobby_key val))
            (\<lambda>v. Inr (\<lparr>attr_header = header, attr_id = attr_id', attr_player = player,
                       attr_name = name', attr_value = Some v\<rparr>, [])))"

section \<open>Entity, Player, User and their subclasses\<close>

text \<open>
  The raw records the constructors receive are dictionaries of scalars that an earlier
  decoding pass has filled: each is a record of its keys. A value that may be \<^verbatim>\<open>None\<close> is
  an \<open>option\<close>.
\<close>

record slot_data =
  slot_handicap :: int
  slot_team_id :: int
  slot_control :: int
  slot_observe :: int
  slot_hero :: string
  slot_skin :: string
  slot_mount :: string
  slot_toon_handle :: "string option"
  slot_tandem_leader_user_id :: "int option"

record rgba =
  chan_r :: int
  chan_g :: int
  chan_b :: int
  chan_a :: int

record bnet =
  bnet_region :: int
  bnet_subregion :: int
  bnet_uid :: int

record detail_data =
  detail_result :: int
  detail_race :: string
  detail_color :: rgba
  detail_bnet :: bnet
  detail_name :: string

record init_data =
  init_clan_tag :: string
  init_name :: string
  init_combined_race_levels :: int
  init_highest_league :: int

type_synonym attribute_data = "string \<rightharpoonup> string"

text \<open>
  An instance of one of the classes. Python keeps the attributes of an object in one
  dictionary, whichever base class assigned them, and a later assignment replaces an
  earlier one; so the object is one record of all attributes the constructors assign, each
  \<open>None\<close> until it is assigned. Attributes whose value may itself be \<^verbatim>\<open>None\<close> carry a
  second \<open>option\<close>. The lists \<^verbatim>\<open>events\<close>, \<^verbatim>\<open>messages\<close>, \<^verbatim>\<open>units\<close> and
  \<^verbatim>\<open>killed_units\<close> and the references \<^verbatim>\<open>team\<close> and \<^verbatim>\<open>recorder\<close> hold objects of
  other modules; the constructors only create them empty, and they are lists of \<open>unit\<close>
  and \<open>unit option\<close> here. \<^verbatim>\<open>utils.Color\<close> is a class of another module: the colour is
  the record of the four channels it is built from.
\<close>

datatype cls = Observer | Computer | Participant

record obj =
  cls_of :: cls
  sid :: "int option"
  slot_data_of :: "slot_data option"
  handicap :: "int option"
  team_id :: "int option"
  is_human :: "bool option"
  is_observer :: "bool option"
  is_referee :: "bool option"
  hero_name :: "string option"
  hero_skin :: "string option"
  hero_mount :: "string option"
  toon_handle :: "string option option"
  region :: "string option"
  gateway :: "string option"
  subregion :: "int option"
  toon_id :: "int option"
  archon_leader_id :: "int option option"
  events :: "unit list option"
  messages :: "unit list option"
  pid :: "int option option"
  detail_data_of :: "detail_data option"
  attribute_data_of :: "attribute_data option"
  result :: "string option option"
  team :: "unit option option"
  pick_race :: "string option"
  difficulty :: "string option"
  play_race :: "string option"
  color :: "rgba option"
  units :: "unit list option"
  killed_units :: "unit list option"
  uid :: "int option"
  init_data_of :: "init_data option"
  clan_tag :: "string option"
  name :: "string option"
  combined_race_levels :: "int option"
  highest_league :: "int option"
  recorder :: "unit option option"

definition new_obj :: "cls \<Rightarrow> obj" where
  "new_obj c =
     \<lparr>cls_of = c, sid = None, slot_data_of = None, handicap = None, team_id = None,
      is_human = None, is_observer = None, is_referee = None, hero_name = None,
      hero_skin = None, hero_mount = None, toon_handle = None, region = None,
      gateway = None, subregion = None, toon_id = None, archon_leader_id = None,
      events = None, messages = None, pid = None, detail_data_of = None,
      attribute_data_of = None, result = None, team = None, pick_race = None,
      difficulty = None, play_race = None, color = None, units = None,
      killed_units = None, uid = None, init_data_of = None, clan_tag = None, name = None,
      combined_race_levels = None, highest_league = None, recorder = None\<rparr>"

text \<open>
  \<^verbatim>\<open>Entity.__init__\<close>. \<^verbatim>\<open>GATEWAY_LOOKUP\<close> is a dictionary of
  \<^verbatim>\<open>sc2reader.constants\<close> and a parameter here. The handle is replaced by
  \<^verbatim>\<open>"0-S2-0-0"\<close> when it is \<^verbatim>\<open>None\<close> or empty (Python's \<^verbatim>\<open>or\<close>), then split at
  \<^verbatim>\<open>"-"\<close>; parts 0, 2 and 3 are read with \<^verbatim>\<open>int\<close>, in this order.
\<close>

definition handle_or_default :: "string option \<Rightarrow> string" where
  "handle_or_default h =
     (case h of None \<Rightarrow> ''0-S2-0-0'' | Some s \<Rightarrow> if s = [] then ''0-S2-0-0'' else s)"

definition Entity_init :: "(int \<rightharpoonup> string) \<Rightarrow> int \<Rightarrow> slot_data \<Rightarrow> obj \<Rightarrow> py_error + obj" where
  "Entity_init GATEWAY_LOOKUP sid' slot self =
     (let self1 = self
            \<lparr>sid := Some sid',
             slot_data_of := Some slot,
             handicap := Some (slot_handicap slot),
             team_id := Some (slot_team_id slot + 1),
             is_human := Some (slot_control slot = 2),
             is_observer := Some (slot_observe slot \<noteq> 0),
             is_referee := Some (slot_observe slot = 2),
             hero_name := Some (slot_hero slot),
             hero_skin := Some (slot_skin slot),
             hero_mount := Some (slot_mount slot),
             toon_handle := Some (slot_toon_handle slot)\<rparr>;
          parts = py_split CHR ''-'' (handle_or_default (slot_toon_handle slot))
      in bind_err (py_index parts 0) (\<lambda>p0.
         bind_err (py_int p0) (\<lambda>k.
         bind_err (py_getitem GATEWAY_LOOKUP k) (\<lambda>rg.
         bind_err (py_index parts 2) (\<lambda>p2.
         bind_err (py_int p2) (\<lambda>sub.
         bind_err (py_index parts 3) (\<lambda>p3.
         bind_err (py_int p3) (\<lambda>tid.
           Inr (self1
             \<lparr>region := Some rg,
              gateway := Some rg,
              subregion := Some sub,
              toon_id := Some tid,
              archon_leader_id := Some (slot_tandem_leader_user_id slot),
              events := Some [],
              messages := Some []\<rparr>)))))))))"

text \<open>
  \<^verbatim>\<open>Player.__init__\<close>. \<^verbatim>\<open>LOCALIZED_RACES\<close> is a dictionary of
  \<^verbatim>\<open>sc2reader.constants\<close> and a parameter; \<^verbatim>\<open>d.get(k, default)\<close> never raises.
\<close>

definition py_get :: "('k \<rightharpoonup> 'v) \<Rightarrow> 'k \<Rightarrow> 'v \<Rightarrow> 'v" where
  "py_get d k dflt = (case d k of None \<Rightarrow> dflt | Some v \<Rightarrow> v)"

definition Player_init ::
  "(int \<rightharpoonup> string) \<Rightarrow> (string \<rightharpoonup> string) \<Rightarrow> int \<Rightarrow> detail_data \<Rightarrow> attribute_data
     \<Rightarrow> obj \<Rightarrow> py_error + obj" where
  "Player_init GATEWAY_LOOKUP LOCALIZED_RACES pid' detail attrs self =
     (let self1 = self
            \<lparr>pid := Some (Some pid'),
             detail_data_of := Some detail,
             attribute_data_of := Some attrs,
             result := Some (if detail_result detail = 1 then Some ''Win''
                             else if detail_result detail = 2 then Some ''Loss''
                             else None),
             team := Some None,
             pick_race := Some (py_get attrs ''Race'' ''Unknown''),
             difficulty := Some (py_get attrs ''Difficulty'' ''Unknown''),
             play_race := Some (py_get LOCALIZED_RACES (detail_race detail) (detail_race detail)),
             color := Some (detail_color detail),
             units := Some [],
             killed_units := Some []\<rparr>
      in bind_err (py_getitem GATEWAY_LOOKUP (bnet_region (detail_bnet detail))) (\<lambda>rg.
           Inr (self1
             \<lparr>region := Some rg,
              gateway := Some rg,
              subregion := Some (bnet_subregion (detail_bnet detail)),
              toon_id := Some (bnet_uid (detail_bnet detail))\<rparr>)))"

text \<open>\<^verbatim>\<open>User.__init__\<close>.\<close>

definition User_init :: "int \<Rightarrow> init_data \<Rightarrow> obj \<Rightarrow> obj" where
  "User_init uid' init self =
     self\<lparr>uid := Some uid',
          init_data_of := Some init,
          clan_tag := Some (init_clan_tag init),
          name := Some (init_name init),
          combined_race_levels := Some (init_combined_race_levels init),
          highest_league := Some (init_highest_league init),
          recorder := Some None\<rparr>"


text \<open>The three concrete classes: each constructor runs its bases' constructors in turn.\<close>

definition Observer_init ::
  "(int \<rightharpoonup> string) \<Rightarrow> int \<Rightarrow> slot_data \<Rightarrow> int \<Rightarrow> init_data \<Rightarrow> int option
     \<Rightarrow> py_error + obj" where
  "Observer_init GATEWAY_LOOKUP sid' slot uid' init pid' =
     bind_err (Entity_init GATEWAY_LOOKUP sid' slot (new_obj Observer)) (\<lambda>self.
       Inr ((User_init uid' init self)\<lparr>pid := Some pid'\<rparr>))"

definition Computer_init ::
  "(int \<rightharpoonup> string) \<Rightarrow> (string \<rightharpoonup> string) \<Rightarrow> int \<Rightarrow> slot_data \<Rightarrow> int \<Rightarrow> detail_data
     \<Rightarrow> attribute_data \<Rightarrow> py_error + obj" where
  "Computer_init GATEWAY_LOOKUP LOCALIZED_RACES sid' slot pid' detail attrs =
     bind_err (Entity_init GATEWAY_LOOKUP sid' slot (new_obj Computer)) (\<lambda>self.
     bind_err (Player_init GATEWAY_LOOKUP LOCALIZED_RACES pid' detail attrs self) (\<lambda>self.
       Inr (self\<lparr>name := Some (detail_name detail)\<rparr>)))"

definition Participant_init ::
  "(int \<rightharpoonup> string) \<Rightarrow> (string \<rightharpoonup> string) \<Rightarrow> int \<Rightarrow> slot_data \<Rightarrow> int \<Rightarrow> init_data
     \<Rightarrow> int \<Rightarrow> detail_data \<Rightarrow> attribute_data \<Rightarrow> py_error + obj" where
  "Participant_init GATEWAY_LOOKUP LOCALIZED_RACES sid' slot uid' init pid' detail attrs =
     bind_err (Entity_init GATEWAY_LOOKUP sid' slot (new_obj Participant)) (\<lambda>self.
     Player_init GATEWAY_LOOKUP LOCALIZED_RACES pid' detail attrs (User_init uid' init self))"

text \<open>
  Modelled from the spec: the function that chooses the class is not in
  \<^verbatim>\<open>objects.py\<close>. The spec's Identity Composer takes the slot record and the optional
  user and detail records; which of the two are present determines the variant, and
  composing with neither is the fault \<open>InconsistentInput\<close>, reported to the caller.
\<close>

definition compose ::
  "(int \<rightharpoonup> string) \<Rightarrow> (string \<rightharpoonup> string) \<Rightarrow> int \<Rightarrow> slot_data \<Rightarrow> int \<Rightarrow> init_data option
     \<Rightarrow> int \<Rightarrow> detail_data option \<Rightarrow> attribute_data \<Rightarrow> py_error + obj" where
  "compose GATEWAY_LOOKUP LOCALIZED_RACES sid' slot uid' user pid' detail attrs =
     (case (user, detail) of
        (None, None) \<Rightarrow> Inl InconsistentInput
      | (None, Some d) \<Rightarrow> Computer_init GATEWAY_LOOKUP LOCALIZED_RACES sid' slot pid' d attrs
      | (Some u, None) \<Rightarrow> Observer_init GATEWAY_LOOKUP sid' slot uid' u (Some pid')
      | (Some u, Some d) \<Rightarrow>
          Participant_init GATEWAY_LOOKUP LOCALIZED_RACES sid' slot uid' u pid' d attrs)"

section \<open>Team\<close>






section \<open>The byte cursor\<close>

text \<open>
  Modelled from the spec: the class \<^verbatim>\<open>ByteDecoder\<close> of \<^verbatim>\<open>sc2reader.decoders\<close> is not
  in \<^verbatim>\<open>objects.py\<close>. The spec describes it as a sequential reader over a fixed byte buffer
  with fixed-width integer reads (little-endian for this format), reads of a byte range and
  of a string of a given length, reads of a null-terminated string, the current offset and
  the total length; a buffer that ends in the middle of a field is a fatal decode fault,
  \<open>Truncated\<close> here. \<^verbatim>\<open>read_uint(n)\<close> reads the \<open>n\<close> bytes of a relation matrix as
  one big-endian value.
\<close>

record ByteDecoder =
  contents_of :: string
  tell :: nat

definition ByteDecoder_init :: "string \<Rightarrow> ByteDecoder" where
  "ByteDecoder_init contents = \<lparr>contents_of = contents, tell = 0\<rparr>"

definition length_of :: "ByteDecoder \<Rightarrow> nat" where
  "length_of data = length (contents_of data)"

type_synonym 'a reader = "ByteDecoder \<Rightarrow> py_error + 'a \<times> ByteDecoder"

definition read_bytes :: "nat \<Rightarrow> string reader" where
  "read_bytes n data =
     (if tell data + n \<le> length_of data
      then Inr (take n (drop (tell data) (contents_of data)), data\<lparr>tell := tell data + n\<rparr>)
      else Inl Truncated)"

fun le_value :: "string \<Rightarrow> nat" where
  "le_value [] = 0"
| "le_value (c # cs) = of_char c + 256 * le_value cs"

definition be_value :: "string \<Rightarrow> nat" where
  "be_value bs = foldl (\<lambda>acc c. 256 * acc + of_char c) 0 bs"

definition read_le :: "nat \<Rightarrow> nat reader" where
  "read_le n data = bind_err (read_bytes n data) (\<lambda>(bs, data'). Inr (le_value bs, data'))"

definition read_uint8 :: "nat reader" where
  "read_uint8 = read_le 1"

definition read_uint16 :: "nat reader" where
  "read_uint16 = read_le 2"

definition read_uint32 :: "nat reader" where
  "read_uint32 = read_le 4"

definition read_uint :: "nat \<Rightarrow> nat reader" where
  "read_uint n data = bind_err (read_bytes n data) (\<lambda>(bs, data'). Inr (be_value bs, data'))"

definition read_string :: "nat \<Rightarrow> string reader" where
  "read_string n = read_bytes n"

definition read_cstring :: "string reader" where
  "read_cstring data =
     (let rest = drop (tell data) (contents_of data);
          s = takeWhile (\<lambda>c. c \<noteq> CHR 0x00) rest
      in if length s < length rest
         then Inr (s, data\<lparr>tell := tell data + length s + 1\<rparr>)
         else Inl Truncated)"

fun read_many :: "nat \<Rightarrow> 'a reader \<Rightarrow> 'a list reader" where
  "read_many 0 rd data = Inr ([], data)"
| "read_many (Suc n) rd data =
     bind_err (rd data) (\<lambda>(x, data1).
     bind_err (read_many n rd data1) (\<lambda>(xs, data2). Inr (x # xs, data2)))"

section \<open>MapInfo\<close>

record MapInfoPlayer =
  player_pid :: nat
  player_control :: nat
  player_color :: nat
  player_race :: string
  player_unknown :: nat
  player_start_point :: nat
  player_ai :: nat
  player_decal :: string

text \<open>
  The attributes of a \<^verbatim>\<open>MapInfo\<close> object, each \<open>None\<close> until the constructor assigns
  it, and the records the constructor hands to the logger.
\<close>

record MapInfo =
  version :: "nat option"
  unknown1 :: "nat option"
  unknown2 :: "nat option"
  width :: "nat option"
  height :: "nat option"
  small_preview_type :: "nat option"
  small_preview_path :: "string option"
  large_preview_type :: "nat option"
  large_preview_path :: "string option"
  unknown3 :: "string option"
  unknown4 :: "nat option"
  unknown5 :: "nat option"
  fog_type :: "string option"
  tile_set :: "string option"
  camera_left :: "nat option"
  camera_bottom :: "nat option"
  camera_right :: "nat option"
  camera_top :: "nat option"
  base_height :: "rat option"
  load_screen_type :: "nat option"
  load_screen_path :: "string option"
  unknown6 :: "string option"
  load_screen_scaling :: "nat option"
  text_position :: "nat option"
  text_position_offset_x :: "nat option"
  text_position_offset_y :: "nat option"
  text_position_size_x :: "nat option"
  text_position_size_y :: "nat option"
  data_flags :: "nat option"
  unknown7 :: "nat option"
  unknown8 :: "string option"
  unknown9 :: "string option"
  unknown10 :: "string option"
  player_count :: "nat option"
  info_players :: "MapInfoPlayer list option"
  start_locations :: "nat list option"
  start_location_used :: "nat option"
  alliance_flags_length :: "nat option"
  alliance_flags :: "nat option"
  advanced_start_locations :: "nat list option"
  advanced_teams_flags :: "nat list option"
  advanced_teams_count2 :: "nat option"
  enemy_flags_length :: "nat option"
  enemy_flags :: "nat option"
  logged :: "log_record list"

definition new_MapInfo :: MapInfo where
  "new_MapInfo =
     \<lparr>version = None, unknown1 = None, unknown2 = None, width = None, height = None,
      small_preview_type = None, small_preview_path = None, large_preview_type = None,
      large_preview_path = None, unknown3 = None, unknown4 = None, unknown5 = None,
      fog_type = None, tile_set = None, camera_left = None, camera_bottom = None,
      camera_right = None, camera_top = None, base_height = None, load_screen_type = None,
      load_screen_path = None, unknown6 = None, load_screen_scaling = None,
      text_position = None, text_position_offset_x = None, text_position_offset_y = None,
      text_position_size_x = None, text_position_size_y = None, data_flags = None,
      unknown7 = None, unknown8 = None, unknown9 = None, unknown10 = None,
      player_count = None, info_players = None, start_locations = None,
      start_location_used = None, alliance_flags_length = None, alliance_flags = None,
      advanced_start_locations = None, advanced_teams_flags = None,
      advanced_teams_count2 = None, enemy_flags_length = None, enemy_flags = None,
      logged = []\<rparr>"

text \<open>
  The constructor is a sequence of statements, each acting on the object under construction
  and the cursor. \<open>assign rd upd\<close> is \<^verbatim>\<open>self.x = data.rd()\<close>, \<open>cond b st\<close> is
  \<^verbatim>\<open>if b: st\<close>, and \<open>run_steps\<close> runs statements in sequence, stopping at the first
  exception.
\<close>

type_synonym step = "MapInfo \<times> ByteDecoder \<Rightarrow> py_error + MapInfo \<times> ByteDecoder"

definition assign :: "'a reader \<Rightarrow> ('a \<Rightarrow> MapInfo \<Rightarrow> MapInfo) \<Rightarrow> step" where
  "assign rd upd = (\<lambda>(self, data). bind_err (rd data) (\<lambda>(v, data'). Inr (upd v self, data')))"

definition assign_const :: "(MapInfo \<Rightarrow> MapInfo) \<Rightarrow> step" where
  "assign_const upd = (\<lambda>(self, data). Inr (upd self, data))"

definition cond :: "(MapInfo \<Rightarrow> bool) \<Rightarrow> step \<Rightarrow> step" where
  "cond b st = (\<lambda>(self, data). if b self then st (self, data) else Inr (self, data))"

fun run_steps :: "step list \<Rightarrow> step" where
  "run_steps [] s = Inr s"
| "run_steps (st # sts) s = bind_err (st s) (run_steps sts)"

definition version_ge :: "nat \<Rightarrow> MapInfo \<Rightarrow> bool" where
  "version_ge v self = (case version self of None \<Rightarrow> False | Some n \<Rightarrow> v \<le> n)"

text \<open>Lines 524 to 530 and 532 to 538: the two map previews.\<close>

definition small_preview_steps :: "step list" where
  "small_preview_steps =
     [assign read_uint32 (\<lambda>v self. self\<lparr>small_preview_type := Some v\<rparr>),
      assign_const (\<lambda>self. self\<lparr>small_preview_path := Some []\<rparr>),
      cond (\<lambda>self. small_preview_type self = Some 2)
        (assign read_cstring (\<lambda>v self. self\<lparr>small_preview_path := Some v\<rparr>))]"

definition large_preview_steps :: "step list" where
  "large_preview_steps =
     [assign read_uint32 (\<lambda>v self. self\<lparr>large_preview_type := Some v\<rparr>),
      assign_const (\<lambda>self. self\<lparr>large_preview_path := Some []\<rparr>),
      cond (\<lambda>self. large_preview_type self = Some 2)
        (assign read_cstring (\<lambda>v self. self\<lparr>large_preview_path := Some v\<rparr>))]"

text \<open>Lines 567 to 571: the loading screen's type and path.\<close>

definition load_screen_steps :: "step list" where
  "load_screen_steps =
     [assign read_uint32 (\<lambda>v self. self\<lparr>load_screen_type := Some v\<rparr>),
      assign read_cstring (\<lambda>v self. self\<lparr>load_screen_path := Some v\<rparr>)]"

text \<open>
  Line 574, \<^verbatim>\<open>data.read_bytes(data.read_uint16()).decode('utf8')\<close>. The codec is Python's
  and a parameter here: it returns the text or raises.
\<close>

definition read_unknown6 :: "(string \<Rightarrow> py_error + string) \<Rightarrow> step" where
  "read_unknown6 utf8_decode =
     (\<lambda>(self, data).
        bind_err (read_uint16 data) (\<lambda>(n, data1).
        bind_err (read_bytes n data1) (\<lambda>(bs, data2).
        bind_err (utf8_decode bs) (\<lambda>s. Inr (self\<lparr>unknown6 := Some s\<rparr>, data2)))))"

text \<open>
  Lines 512 to 628: everything the constructor reads after the magic tag, up to the number
  of players. The module imports true division, so \<^verbatim>\<open>read_uint32()/4096\<close> is a fraction
  (a 32-bit value divided by a power of two is exact in floating point).
\<close>

definition prefix_steps :: "(string \<Rightarrow> py_error + string) \<Rightarrow> step list" where
  "prefix_steps utf8_decode =
     [assign read_uint32 (\<lambda>v self. self\<lparr>version := Some v\<rparr>)]
     @ [cond (version_ge 0x18)
        (run_steps
          [assign read_uint32 (\<lambda>v self. self\<lparr>unknown1 := Some v\<rparr>),
           assign read_uint32 (\<lambda>v self. self\<lparr>unknown2 := Some v\<rparr>)]),
      assign read_uint32 (\<lambda>v self. self\<lparr>width := Some v\<rparr>),
      assign read_uint32 (\<lambda>v self. self\<lparr>height := Some v\<rparr>)]
     @ small_preview_steps
     @ large_preview_steps
     @ [cond (version_ge 0x1f)
        (run_steps
          [assign read_cstring (\<lambda>v self. self\<lparr>unknown3 := Some v\<rparr>),
           assign read_uint32 (\<lambda>v self. self\<lparr>unknown4 := Some v\<rparr>)]),
      assign read_uint32 (\<lambda>v self. self\<lparr>unknown5 := Some v\<rparr>),
      assign read_cstring (\<lambda>v self. self\<lparr>fog_type := Some v\<rparr>),
      assign read_cstring (\<lambda>v self. self\<lparr>tile_set := Some v\<rparr>),
      assign read_uint32 (\<lambda>v self. self\<lparr>camera_left := Some v\<rparr>),
      assign read_uint32 (\<lambda>v self. self\<lparr>camera_bottom := Some v\<rparr>),
      assign read_uint32 (\<lambda>v self. self\<lparr>camera_right := Some v\<rparr>),
      assign read_uint32 (\<lambda>v self. self\<lparr>camera_top := Some v\<rparr>),
      assign read_uint32 (\<lambda>v self. self\<lparr>base_height := Some (of_nat v / 4096)\<rparr>)]
     @ load_screen_steps
     @ [read_unknown6 utf8_decode,
      assign read_uint32 (\<lambda>v self. self\<lparr>load_screen_scaling := Some v\<rparr>),
      assign read_uint32 (\<lambda>v self. self\<lparr>text_position := Some v\<rparr>),
      assign read_uint32 (\<lambda>v self. self\<lparr>text_position_offset_x := Some v\<rparr>),
      assign read_uint32 (\<lambda>v self. self\<lparr>text_position_offset_y := Some v\<rparr>),
      assign read_uint32 (\<lambda>v self. self\<lparr>text_position_size_x := Some v\<rparr>),
      assign read_uint32 (\<lambda>v self. self\<lparr>text_position_size_y := Some v\<rparr>),
      assign read_uint32 (\<lambda>v self. self\<lparr>data_flags := Some v\<rparr>),
      assign read_uint32 (\<lambda>v self. self\<lparr>unknown7 := Some v\<rparr>),
      cond (version_ge 0x19) (assign (read_bytes 8) (\<lambda>v self. self\<lparr>unknown8 := Some v\<rparr>)),
      cond (version_ge 0x1f) (assign (read_bytes 9) (\<lambda>v self. self\<lparr>unknown9 := Some v\<rparr>)),
      cond (version_ge 0x20) (assign (read_bytes 4) (\<lambda>v self. self\<lparr>unknown10 := Some v\<rparr>))]
     @ [assign read_uint32 (\<lambda>v self. self\<lparr>player_count := Some v\<rparr>)]"

text \<open>
  \<^verbatim>\<open>MapInfo.__init__\<close>, with the cursor it leaves behind: the magic tag is read and
  compared; a different tag is logged as a warning and the constructor returns. Otherwise
  the statements up to the number of players run, and the constructor returns at line 632.
\<close>

definition MapInfo_run ::
  "(string \<Rightarrow> py_error + string) \<Rightarrow> string \<Rightarrow> py_error + MapInfo \<times> ByteDecoder" where
  "MapInfo_run utf8_decode contents =
     bind_err (read_string 4 (ByteDecoder_init contents)) (\<lambda>(magic, data).
       if magic \<noteq> ''MapI''
       then Inr (new_MapInfo\<lparr>logged := [(Warn, ''Invalid MapInfo file: '' @ magic)]\<rparr>, data)
       else run_steps (prefix_steps utf8_decode) (new_MapInfo, data))"

definition MapInfo_init :: "(string \<Rightarrow> py_error + string) \<Rightarrow> string \<Rightarrow> py_error + MapInfo" where
  "MapInfo_init utf8_decode contents =
     bind_err (MapInfo_run utf8_decode contents) (\<lambda>(self, data). Inr self)"

text \<open>
  Lines 634 to 711 follow the \<^verbatim>\<open>return\<close> of line 632 and are never executed. They are
  modelled as written, as statements of their own that \<open>MapInfo_init\<close> does not run.
  \<^verbatim>\<open>int(math.ceil(n/8.0))\<close> is the number of bytes that hold \<open>n\<close> bits.
\<close>

definition read_player :: "MapInfoPlayer reader" where
  "read_player data =
     bind_err (read_uint8 data) (\<lambda>(pid', data).
     bind_err (read_uint32 data) (\<lambda>(control, data).
     bind_err (read_uint32 data) (\<lambda>(color', data).
     bind_err (read_cstring data) (\<lambda>(race, data).
     bind_err (read_uint32 data) (\<lambda>(unknown, data).
     bind_err (read_uint32 data) (\<lambda>(start_point, data).
     bind_err (read_uint32 data) (\<lambda>(ai, data).
     bind_err (read_cstring data) (\<lambda>(decal, data).
       Inr (\<lparr>player_pid = pid', player_control = control, player_color = color',
             player_race = race, player_unknown = unknown,
             player_start_point = start_point, player_ai = ai, player_decal = decal\<rparr>,
            data)))))))))"

definition read_uint32_list :: "nat list reader" where
  "read_uint32_list data =
     bind_err (read_uint32 data) (\<lambda>(n, data1). read_many n read_uint32 data1)"

definition ceil_div8 :: "nat \<Rightarrow> nat" where
  "ceil_div8 n = nat \<lceil>(of_nat n :: rat) / 8\<rceil>"

definition read_players :: step where
  "read_players =
     (\<lambda>(self, data).
        case player_count self of
          None \<Rightarrow> Inl AttributeError
        | Some n \<Rightarrow>
            bind_err (read_many n read_player data) (\<lambda>(ps, data').
              Inr (self\<lparr>info_players := Some ps\<rparr>, data')))"

definition read_alliance_flags :: step where
  "read_alliance_flags =
     (\<lambda>(self, data).
        case alliance_flags_length self of
          None \<Rightarrow> Inl AttributeError
        | Some n \<Rightarrow>
            bind_err (read_uint (ceil_div8 n) data) (\<lambda>(v, data').
              Inr (self\<lparr>alliance_flags := Some v\<rparr>, data')))"

definition read_enemy_flags :: step where
  "read_enemy_flags =
     (\<lambda>(self, data).
        case enemy_flags_length self of
          None \<Rightarrow> Inl AttributeError
        | Some n \<Rightarrow>
            bind_err (read_uint (ceil_div8 n) data) (\<lambda>(v, data').
              Inr (self\<lparr>enemy_flags := Some v\<rparr>, data')))"

definition warn_unread :: step where
  "warn_unread =
     (\<lambda>(self, data).
        if length_of data \<noteq> tell data
        then Inr (self\<lparr>logged := logged self @ [(Warn, ''Not all of the MapInfo file was read!'')]\<rparr>,
                  data)
        else Inr (self, data))"

text \<open>
  Lines 657 to 672 and 693 to 708: the two relation matrices. The comments between these
  lines sketch how a reader of the flags could test them; no code of the module does, and
  the sketch is not part of this model.
\<close>

definition alliance_steps :: "step list" where
  "alliance_steps =
     [assign read_uint32 (\<lambda>v self. self\<lparr>alliance_flags_length := Some v\<rparr>),
      read_alliance_flags]"

definition enemy_steps :: "step list" where
  "enemy_steps =
     [assign read_uint32 (\<lambda>v self. self\<lparr>enemy_flags_length := Some v\<rparr>),
      read_enemy_flags]"

definition tail_steps :: "step list" where
  "tail_steps =
     [read_players,
      assign read_uint32_list (\<lambda>v self. self\<lparr>start_locations := Some v\<rparr>),
      assign read_uint32 (\<lambda>v self. self\<lparr>start_location_used := Some v\<rparr>)]
     @ alliance_steps
     @ [assign read_uint32_list (\<lambda>v self. self\<lparr>advanced_start_locations := Some v\<rparr>),
      assign read_uint32_list (\<lambda>v self. self\<lparr>advanced_teams_flags := Some v\<rparr>),
      assign read_uint32 (\<lambda>v self. self\<lparr>advanced_teams_count2 := Some v\<rparr>)]
     @ enemy_steps
     @ [warn_unread]"

text \<open>
  Two predicates for stating what the constructor leaves alone: a statement keeps a
  property of the object when every successful run of it does, and \<open>tail_unread\<close>
  says that no attribute of lines 634 to 708 has been assigned.
\<close>

definition keeps :: "(MapInfo \<Rightarrow> bool) \<Rightarrow> step \<Rightarrow> bool" where
  "keeps P st = (\<forall>m d m' d'. P m \<longrightarrow> st (m, d) = Inr (m', d') \<longrightarrow> P m')"

definition tail_unread :: "MapInfo \<Rightarrow> bool" where
  "tail_unread m =
     (info_players m = None \<and> start_locations m = None \<and> start_location_used m = None
      \<and> alliance_flags_length m = None \<and> alliance_flags m = None
      \<and> advanced_start_locations m = None \<and> advanced_teams_flags m = None
      \<and> advanced_teams_count2 m = None \<and> enemy_flags_length m = None
      \<and> enemy_flags m = None)"

section \<open>Example inputs\<close>

text \<open>A small attribute table, used to run the theorems below on concrete inputs.\<close>

definition example_properties :: "int \<rightharpoonup> string \<times> (string \<rightharpoonup> string)" where
  "example_properties =
     [500 \<mapsto> (''Controller'', [''Humn'' \<mapsto> ''Human'', ''Comp'' \<mapsto> ''Computer'']),
      3004 \<mapsto> (''Difficulty'', [''EM'' \<mapsto> ''Medium'', ''Hard'' \<mapsto> ''Hard''])]"

definition example_slot :: slot_data where
  "example_slot =
     \<lparr>slot_handicap = 100, slot_team_id = 0, slot_control = 2, slot_observe = 2,
      slot_hero = [], slot_skin = [], slot_mount = [],
      slot_toon_handle = Some ''1-S2-3-12345'', slot_tandem_leader_user_id = None\<rparr>"

definition example_gateways :: "int \<rightharpoonup> string" where
  "example_gateways = [0 \<mapsto> [], 1 \<mapsto> ''us'', 2 \<mapsto> ''eu'']"

definition example_init :: init_data where
  "example_init =
     \<lparr>init_clan_tag = [], init_name = ''Ann'', init_combined_race_levels = 0,
      init_highest_league = 0\<rparr>"

definition example_detail :: detail_data where
  "example_detail =
     \<lparr>detail_result = 1, detail_race = ''Zerg'',
      detail_color = \<lparr>chan_r = 0, chan_g = 0, chan_b = 0, chan_a = 0\<rparr>,
      detail_bnet = \<lparr>bnet_region = 1, bnet_subregion = 3, bnet_uid = 12345\<rparr>,
      detail_name = ''A.I. 1''\<rparr>"

text \<open>
  A MapInfo file of version 0x17, so without the fields of later versions: no small
  preview, a custom large preview, load screen type 0 with a path, no players, and then
  the data the unreachable statements would read: three start locations and two relation
  matrices of four flags each, with only bit 1 set.
\<close>

definition u32 :: "char \<Rightarrow> string" where
  "u32 c = [c, CHR 0x00, CHR 0x00, CHR 0x00]"

definition cstr :: "string \<Rightarrow> string" where
  "cstr s = s @ [CHR 0x00]"

definition example_prefix :: string where
  "example_prefix =
     ''MapI'' @ u32 (CHR 0x17) @ u32 (CHR 0x40) @ u32 (CHR 0x30)
     @ u32 (CHR 0x00) @ u32 (CHR 0x02) @ cstr ''big''
     @ u32 (CHR 0x00) @ cstr ''fog'' @ cstr ''tile''
     @ u32 (CHR 0x07) @ u32 (CHR 0x04) @ u32 (CHR 0x39) @ u32 (CHR 0x2C)
     @ [CHR 0x00, CHR 0x10, CHR 0x00, CHR 0x00]
     @ u32 (CHR 0x00) @ cstr ''load'' @ [CHR 0x00, CHR 0x00]
     @ u32 (CHR 0x00) @ u32 (CHR 0x00) @ u32 (CHR 0x00) @ u32 (CHR 0x00)
     @ u32 (CHR 0x00) @ u32 (CHR 0x00) @ u32 (CHR 0x00) @ u32 (CHR 0x00)
     @ u32 (CHR 0x00)"

definition example_tail :: string where
  "example_tail =
     u32 (CHR 0x03) @ u32 (CHR 0x01) @ u32 (CHR 0x02) @ u32 (CHR 0x03)
     @ u32 (CHR 0x03)
     @ u32 (CHR 0x04) @ [CHR 0x02]
     @ u32 (CHR 0x00) @ u32 (CHR 0x00) @ u32 (CHR 0x00)
     @ u32 (CHR 0x04) @ [CHR 0x02]"

definition example_map :: string where
  "example_map = example_prefix @ example_tail"

definition example_decoded :: MapInfo where
  "example_decoded =
     new_MapInfo
       \<lparr>version := Some 23, width := Some 64, height := Some 48,
        small_preview_type := Some 0, small_preview_path := Some [],
        large_preview_type := Some 2, large_preview_path := Some ''big'',
        unknown5 := Some 0, fog_type := Some ''fog'', tile_set := Some ''tile'',
        camera_left := Some 7, camera_bottom := Some 4, camera_right := Some 57,
        camera_top := Some 44, base_height := Some 1,
        load_screen_type := Some 0, load_screen_path := Some ''load'',
        unknown6 := Some [], load_screen_scaling := Some 0, text_position := Some 0,
        text_position_offset_x := Some 0, text_position_offset_y := Some 0,
        text_position_size_x := Some 0, text_position_size_y := Some 0,
        data_flags := Some 0, unknown7 := Some 0, player_count := Some 0\<rparr>"

section \<open>Helper lemmas\<close>

lemma bind_err_Inr_iff:
  "bind_err x f = Inr y \<longleftrightarrow> (\<exists>v. x = Inr v \<and> f v = Inr y)"
  by (cases x) (simp_all add: bind_err_def)

lemma bind_err_Inl_iff:
  "bind_err x f = Inl e \<longleftrightarrow> (x = Inl e \<or> (\<exists>v. x = Inr v \<and> f v = Inl e))"
  by (cases x) (simp_all add: bind_err_def)

lemma bind_err_simps [simp]:
  "bind_err (Inl e) f = Inl e"
  "bind_err (Inr v) f = f v"
  by (simp_all add: bind_err_def)

lemma py_strip_decomp:
  "\<exists>l r. s = l @ py_strip cs s @ r \<and> set l \<subseteq> set cs \<and> set r \<subseteq> set cs"
proof -
  let ?P = "\<lambda>c. c \<in> set cs"
  let ?m = "dropWhile ?P s"
  have 1: "s = takeWhile ?P s @ ?m" by simp
  have 2: "rev ?m = takeWhile ?P (rev ?m) @ dropWhile ?P (rev ?m)" by simp
  have 3: "?m = py_strip cs s @ rev (takeWhile ?P (rev ?m))"
    unfolding py_strip_def by (metis 2 rev_append rev_rev_ident)
  have "s = takeWhile ?P s @ py_strip cs s @ rev (takeWhile ?P (rev ?m))"
    using 1 3 by metis
  moreover have "set (takeWhile ?P s) \<subseteq> set cs" by (auto dest: set_takeWhileD)
  moreover have "set (rev (takeWhile ?P (rev ?m))) \<subseteq> set cs" by (auto dest: set_takeWhileD)
  ultimately show ?thesis by blast
qed

lemma py_strip_hd: "py_strip cs s \<noteq> [] \<Longrightarrow> hd (py_strip cs s) \<notin> set cs"
proof -
  assume ne: "py_strip cs s \<noteq> []"
  let ?P = "\<lambda>c. c \<in> set cs"
  let ?m = "dropWhile ?P s"
  let ?X = "dropWhile ?P (rev ?m)"
  have X: "?X \<noteq> []" using ne by (simp add: py_strip_def)
  then have m: "?m \<noteq> []" by (metis dropWhile.simps(1) rev.simps(1))
  have "rev ?m = takeWhile ?P (rev ?m) @ ?X" by simp
  then have "last (rev ?m) = last ?X" using X by (metis last_appendR)
  then have "hd (py_strip cs s) = hd ?m"
    using X m by (simp add: py_strip_def hd_rev last_rev)
  moreover have "\<not> ?P (hd ?m)" using m by (rule hd_dropWhile)
  ultimately show ?thesis by simp
qed

lemma py_strip_last: "py_strip cs s \<noteq> [] \<Longrightarrow> last (py_strip cs s) \<notin> set cs"
  unfolding py_strip_def
  by (metis hd_dropWhile last_rev rev_is_Nil_conv)

lemma Entity_init_flags:
  "Entity_init GL s slot self = Inr e \<Longrightarrow>
     is_referee e = Some (slot_observe slot = 2) \<and> is_observer e = Some (slot_observe slot \<noteq> 0)"
  by (auto simp: Entity_init_def bind_err_def Let_def split: sum.splits)

lemma User_init_flags:
  "is_referee (User_init u i self) = is_referee self"
  "is_observer (User_init u i self) = is_observer self"
  by (simp_all add: User_init_def)

lemma Player_init_flags:
  "Player_init GL LR p d a self = Inr e \<Longrightarrow>
     is_referee e = is_referee self \<and> is_observer e = is_observer self"
  by (auto simp: Player_init_def bind_err_def Let_def split: sum.splits)

section \<open>Attribute resolution\<close>

text \<open>
  C8. Resolving an attribute raises exactly when the id is known and the normalized raw
  value is not a key of the id's value table, and the exception is then a \<open>KeyError\<close>.
  For an unknown id the constructor returns the name \<open>Unknown\<close> with the value
  \<open>None\<close> and logs one informational record.
\<close>

theorem Attribute_init_raises_iff:
  "((\<exists>e. Attribute_init LP h i p v = Inl e) \<longleftrightarrow>
      (\<exists>nm tbl. LP i = Some (nm, tbl) \<and> tbl (lobby_key v) = None))
   \<and> (\<forall>e. Attribute_init LP h i p v = Inl e \<longrightarrow> e = KeyError)
   \<and> (LP i = None \<longrightarrow>
        Attribute_init LP h i p v =
          Inr (\<lparr>attr_header = h, attr_id = i, attr_player = p,
                attr_name = ''Unknown'', attr_value = None\<rparr>,
               [(Info, ''Unknown attribute id: '' @ py_str_int i)]))"
  by (auto simp: Attribute_init_def bind_err_def py_getitem_def split: option.splits sum.splits)

theorem Attribute_init_raises_iff_witness:
  "example_properties 7 = None
   \<and> fst (projr (Attribute_init example_properties 0 7 1 ''Humn'')) =
       \<lparr>attr_header = 0, attr_id = 7, attr_player = 1,
        attr_name = ''Unknown'', attr_value = None\<rparr>
   \<and> (\<exists>nm tbl. example_properties 500 = Some (nm, tbl) \<and> tbl (lobby_key ''Zerg'') = None)
   \<and> Attribute_init example_properties 0 500 1 ''Zerg'' = Inl KeyError"
  using Attribute_init_raises_iff [of example_properties 0 7 1 "''Humn''"]
    Attribute_init_raises_iff [of example_properties 0 500 1 "''Zerg''"]
  by (auto simp add: example_properties_def lobby_key_def py_strip_def)

text \<open>
  C9. For a known id the key looked up in the value table is the raw value with the null
  and space padding removed from both ends, reversed: the raw value is padding, the
  reversed key, padding, and the key neither starts nor ends with a padding character.
  The raw value \<^verbatim>\<open>"\x00\x00ME"\<close> gives the key \<^verbatim>\<open>"EM"\<close>.
\<close>

theorem Attribute_init_key_normalized:
  "LP i = Some (nm, tbl) \<Longrightarrow>
     Attribute_init LP h i p v =
       (case tbl (lobby_key v) of
          None \<Rightarrow> Inl KeyError
        | Some x \<Rightarrow> Inr (\<lparr>attr_header = h, attr_id = i, attr_player = p,
                          attr_name = nm, attr_value = Some x\<rparr>, []))
     \<and> (\<exists>l r. v = l @ rev (lobby_key v) @ r
              \<and> set l \<subseteq> {CHR 0x00, CHR '' ''} \<and> set r \<subseteq> {CHR 0x00, CHR '' ''})
     \<and> (lobby_key v \<noteq> [] \<longrightarrow>
          hd (lobby_key v) \<notin> {CHR 0x00, CHR '' ''} \<and> last (lobby_key v) \<notin> {CHR 0x00, CHR '' ''})
     \<and> lobby_key [CHR 0x00, CHR 0x00, CHR ''M'', CHR ''E''] = ''EM''"
proof (intro conjI impI)
  assume "LP i = Some (nm, tbl)"
  then show "Attribute_init LP h i p v =
       (case tbl (lobby_key v) of
          None \<Rightarrow> Inl KeyError
        | Some x \<Rightarrow> Inr (\<lparr>attr_header = h, attr_id = i, attr_player = p,
                          attr_name = nm, attr_value = Some x\<rparr>, []))"
    by (simp add: Attribute_init_def py_getitem_def split: option.splits)
next
  show "\<exists>l r. v = l @ rev (lobby_key v) @ r
          \<and> set l \<subseteq> {CHR 0x00, CHR '' ''} \<and> set r \<subseteq> {CHR 0x00, CHR '' ''}"
    using py_strip_decomp [of v "[CHR 0x00, CHR '' '']"] by (simp add: lobby_key_def)
next
  assume ne: "lobby_key v \<noteq> []"
  then have ne': "py_strip [CHR 0x00, CHR '' ''] v \<noteq> []" by (simp add: lobby_key_def)
  show "hd (lobby_key v) \<notin> {CHR 0x00, CHR '' ''}"
    using py_strip_last [OF ne'] ne' by (simp add: lobby_key_def hd_rev)
  show "last (lobby_key v) \<notin> {CHR 0x00, CHR '' ''}"
    using py_strip_hd [OF ne'] ne' by (simp add: lobby_key_def last_rev)
next
  show "lobby_key [CHR 0x00, CHR 0x00, CHR ''M'', CHR ''E''] = ''EM''"
    by (simp add: lobby_key_def py_strip_def)
qed

theorem Attribute_init_key_normalized_witness:
  "example_properties 3004 = Some (''Difficulty'', [''EM'' \<mapsto> ''Medium'', ''Hard'' \<mapsto> ''Hard''])
   \<and> Attribute_init example_properties 0 3004 1 [CHR 0x00, CHR 0x00, CHR ''M'', CHR ''E''] =
       Inr (\<lparr>attr_header = 0, attr_id = 3004, attr_player = 1,
             attr_name = ''Difficulty'', attr_value = Some ''Medium''\<rparr>, [])"
proof -
  have h: "example_properties 3004
             = Some (''Difficulty'', [''EM'' \<mapsto> ''Medium'', ''Hard'' \<mapsto> ''Hard''])"
    by (simp add: example_properties_def)
  show ?thesis
    using h Attribute_init_key_normalized
              [of example_properties 3004 "''Difficulty''"
                  "[''EM'' \<mapsto> ''Medium'', ''Hard'' \<mapsto> ''Hard'']"
                  0 1 "[CHR 0x00, CHR 0x00, CHR ''M'', CHR ''E'']"]
    by simp
qed

section \<open>Observer and referee flags\<close>

text \<open>
  C10. Whenever a constructor succeeds, the referee flag of the object is true exactly when
  the slot's observe code is 2 and the observer flag exactly when the code is not 0, so a
  referee is an observer. This holds for \<open>Entity_init\<close> on any object and for the three
  concrete classes.
\<close>

theorem referee_implies_observer:
  "(Entity_init GL s slot self = Inr e
    \<or> Observer_init GL s slot u init po = Inr e
    \<or> Computer_init GL LR s slot p d a = Inr e
    \<or> Participant_init GL LR s slot u init p d a = Inr e)
   \<Longrightarrow> is_referee e = Some (slot_observe slot = 2)
       \<and> is_observer e = Some (slot_observe slot \<noteq> 0)
       \<and> (is_referee e = Some True \<longrightarrow> is_observer e = Some True)"
proof -
  assume a: "Entity_init GL s slot self = Inr e
    \<or> Observer_init GL s slot u init po = Inr e
    \<or> Computer_init GL LR s slot p d a = Inr e
    \<or> Participant_init GL LR s slot u init p d a = Inr e"
  have "is_referee e = Some (slot_observe slot = 2)
       \<and> is_observer e = Some (slot_observe slot \<noteq> 0)"
    using a
    by (auto simp: Observer_init_def Computer_init_def Participant_init_def
          bind_err_Inr_iff User_init_flags
          dest!: Entity_init_flags Player_init_flags)
  then show ?thesis by auto
qed

theorem referee_implies_observer_witness:
  "\<exists>e. Entity_init example_gateways 0 example_slot (new_obj Observer) = Inr e
       \<and> is_referee e = Some True \<and> is_observer e = Some True"
proof -
  have "\<exists>e. Entity_init example_gateways 0 example_slot (new_obj Observer) = Inr e"
    by (simp add: Entity_init_def example_slot_def example_gateways_def handle_or_default_def
          py_index_def py_int_def py_strip_def whitespace_def is_digit_def py_getitem_def)
  then obtain e where e: "Entity_init example_gateways 0 example_slot (new_obj Observer) = Inr e"
    by blast
  have "slot_observe example_slot = 2" by (simp add: example_slot_def)
  then show ?thesis
    using e referee_implies_observer [of example_gateways 0 example_slot "new_obj Observer" e]
    by simp
qed

section \<open>Account handles\<close>

lemma zero_handle_parts:
  "py_split CHR ''-'' ''0-S2-0-0'' = [''0'', ''S2'', ''0'', ''0'']"
  "py_int ''0'' = Inr 0"
  by (simp_all add: py_int_def py_strip_def whitespace_def is_digit_def)

lemma example_handle_parts:
  "py_split CHR ''-'' ''1-S2-3-12345'' = [''1'', ''S2'', ''3'', ''12345'']"
  "py_int ''1'' = Inr 1"
  "py_int ''3'' = Inr 3"
  "py_int ''12345'' = Inr 12345"
  by (simp_all add: py_int_def py_strip_def whitespace_def is_digit_def)

text \<open>
  C5, as the claim states it, fails: a handle that is not empty is parsed as it is, and
  the malformed handle \<^verbatim>\<open>"abc"\<close> raises \<^verbatim>\<open>ValueError\<close>.
\<close>

theorem Entity_init_malformed_handle_raises:
  "Entity_init example_gateways 0 (example_slot\<lparr>slot_toon_handle := Some ''abc''\<rparr>)
     (new_obj Observer) = Inl ValueError"
  by (simp add: Entity_init_def example_slot_def example_gateways_def handle_or_default_def
        py_index_def py_int_def py_strip_def whitespace_def is_digit_def py_getitem_def)

text \<open>
  C5, amended. The zero handle replaces a handle that is \<^verbatim>\<open>None\<close> or empty, and only
  such a handle. With it the constructor succeeds with the region the table gives for 0,
  subregion 0 and account id 0, provided the table has the key 0; the handle
  \<^verbatim>\<open>"1-S2-3-12345"\<close> gives the region the table has for 1, subregion 3 and account id
  12345, provided the table has the key 1.
\<close>

theorem Entity_init_handle_fallback:
  "((slot_toon_handle slot = None \<or> slot_toon_handle slot = Some []) \<and> GL 0 = Some rg \<longrightarrow>
      (\<exists>e. Entity_init GL s slot self = Inr e \<and> region e = Some rg \<and> gateway e = Some rg
           \<and> subregion e = Some 0 \<and> toon_id e = Some 0))
   \<and> (slot_toon_handle slot = Some ''1-S2-3-12345'' \<and> GL 1 = Some rg \<longrightarrow>
      (\<exists>e. Entity_init GL s slot self = Inr e \<and> region e = Some rg \<and> gateway e = Some rg
           \<and> subregion e = Some 3 \<and> toon_id e = Some 12345))
   \<and> (h \<noteq> [] \<longrightarrow> handle_or_default (Some h) = h)
   \<and> handle_or_default None = ''0-S2-0-0'' \<and> handle_or_default (Some []) = ''0-S2-0-0''"
  by (auto simp: Entity_init_def handle_or_default_def zero_handle_parts example_handle_parts
        py_index_def py_getitem_def)

theorem Entity_init_handle_fallback_witness:
  "slot_toon_handle (example_slot\<lparr>slot_toon_handle := None\<rparr>) = None
   \<and> example_gateways 0 = Some []
   \<and> (\<exists>e. Entity_init example_gateways 5 (example_slot\<lparr>slot_toon_handle := None\<rparr>)
             (new_obj Observer) = Inr e
           \<and> region e = Some [] \<and> subregion e = Some 0 \<and> toon_id e = Some 0)
   \<and> slot_toon_handle example_slot = Some ''1-S2-3-12345''
   \<and> example_gateways 1 = Some ''us''
   \<and> (\<exists>e. Entity_init example_gateways 5 example_slot (new_obj Observer) = Inr e
           \<and> region e = Some ''us'' \<and> subregion e = Some 3 \<and> toon_id e = Some 12345)"
proof -
  have h0: "slot_toon_handle (example_slot\<lparr>slot_toon_handle := None\<rparr>) = None"
    by simp
  have g0: "example_gateways 0 = Some []"
    by (simp add: example_gateways_def)
  have h1: "slot_toon_handle example_slot = Some ''1-S2-3-12345''"
    by (simp add: example_slot_def)
  have g1: "example_gateways 1 = Some ''us''"
    by (simp add: example_gateways_def)
  note t0 = Entity_init_handle_fallback
          [of "example_slot\<lparr>slot_toon_handle := None\<rparr>" example_gateways "[]" 5
              "new_obj Observer" "''x''"]
  note t1 = Entity_init_handle_fallback
          [of example_slot example_gateways "''us''" 5 "new_obj Observer" "''x''"]
  from t0 h0 g0 have a: "\<exists>e. Entity_init example_gateways 5
             (example_slot\<lparr>slot_toon_handle := None\<rparr>) (new_obj Observer) = Inr e
           \<and> region e = Some [] \<and> subregion e = Some 0 \<and> toon_id e = Some 0"
    by blast
  from t1 h1 g1 have b: "\<exists>e. Entity_init example_gateways 5 example_slot (new_obj Observer) = Inr e
           \<and> region e = Some ''us'' \<and> subregion e = Some 3 \<and> toon_id e = Some 12345"
    by blast
  show ?thesis using h0 g0 h1 g1 a b by blast
qed

section \<open>Participants\<close>

lemma Entity_init_sets:
  "Entity_init GL s slot self = Inr e \<Longrightarrow>
     cls_of e = cls_of self \<and> name e = name self \<and> uid e = uid self \<and> result e = result self
     \<and> region e \<noteq> None \<and> toon_id e \<noteq> None \<and> subregion e \<noteq> None"
  by (auto simp: Entity_init_def bind_err_def Let_def split: sum.splits)

lemma Player_init_sets:
  "Player_init GL LR p d a self = Inr e \<Longrightarrow>
     cls_of e = cls_of self \<and> name e = name self \<and> uid e = uid self \<and> result e \<noteq> None
     \<and> region e \<noteq> None \<and> toon_id e \<noteq> None \<and> subregion e \<noteq> None"
  by (auto simp: Player_init_def bind_err_def Let_def split: sum.splits)

lemma py_int_error: "py_int x = Inl err \<Longrightarrow> err = ValueError"
  by (auto simp: py_int_def Let_def split: if_splits)

lemma py_index_error: "py_index xs n = Inl err \<Longrightarrow> err = IndexError"
  by (auto simp: py_index_def split: if_splits)

lemma py_getitem_error: "py_getitem m k = Inl err \<Longrightarrow> err = KeyError"
  by (auto simp: py_getitem_def split: option.splits)

lemma Entity_init_error:
  "Entity_init GL s slot self = Inl err \<Longrightarrow> err \<in> {ValueError, KeyError, IndexError}"
  unfolding Entity_init_def Let_def bind_err_Inl_iff
  by (auto dest: py_int_error py_index_error py_getitem_error)

lemma Player_init_error:
  "Player_init GL LR p d a self = Inl err \<Longrightarrow> err = KeyError"
  unfolding Player_init_def Let_def bind_err_Inl_iff
  by (auto dest: py_getitem_error)


text \<open>
  C6. The variant follows from which records are present: detail data alone gives a
  \<open>Computer\<close>, which has a game result and the name of its detail record and no user id;
  both give a \<open>Participant\<close>, with a user id and a game result; user data alone gives an
  \<open>Observer\<close>, with a user id and no game result. With neither the composition is the
  fault \<open>InconsistentInput\<close>, and only then.
\<close>

theorem compose_variant:
  "compose GL LR s slot u None p None a = Inl InconsistentInput
   \<and> (compose GL LR s slot u None p (Some d) a = Inr e \<longrightarrow>
        cls_of e = Computer \<and> uid e = None \<and> result e \<noteq> None
        \<and> name e = Some (detail_name d))
   \<and> (compose GL LR s slot u (Some i) p (Some d) a = Inr e \<longrightarrow>
        cls_of e = Participant \<and> uid e = Some u \<and> result e \<noteq> None)
   \<and> (compose GL LR s slot u (Some i) p None a = Inr e \<longrightarrow>
        cls_of e = Observer \<and> uid e = Some u \<and> result e = None)
   \<and> (user \<noteq> None \<or> detail \<noteq> None \<longrightarrow>
        compose GL LR s slot u user p detail a \<noteq> Inl InconsistentInput)"
proof -
  have 1: "compose GL LR s slot u None p None a = Inl InconsistentInput"
    by (simp add: compose_def)
  have 2: "compose GL LR s slot u None p (Some d) a = Inr e \<longrightarrow>
        cls_of e = Computer \<and> uid e = None \<and> result e \<noteq> None
        \<and> name e = Some (detail_name d)"
    by (auto simp: compose_def Computer_init_def bind_err_Inr_iff new_obj_def
          dest!: Entity_init_sets Player_init_sets)
  have 3: "compose GL LR s slot u (Some i) p (Some d) a = Inr e \<longrightarrow>
        cls_of e = Participant \<and> uid e = Some u \<and> result e \<noteq> None"
    by (auto simp: compose_def Participant_init_def bind_err_Inr_iff new_obj_def User_init_def
          dest!: Entity_init_sets Player_init_sets)
  have 4: "compose GL LR s slot u (Some i) p None a = Inr e \<longrightarrow>
        cls_of e = Observer \<and> uid e = Some u \<and> result e = None"
    by (auto simp: compose_def Observer_init_def bind_err_Inr_iff new_obj_def User_init_def
          dest!: Entity_init_sets)
  have 5: "user \<noteq> None \<or> detail \<noteq> None \<longrightarrow>
        compose GL LR s slot u user p detail a \<noteq> Inl InconsistentInput"
    by (cases user; cases detail)
       (auto simp: compose_def Observer_init_def Computer_init_def Participant_init_def
          bind_err_Inl_iff
          dest: Entity_init_error Player_init_error)
  show ?thesis using 1 2 3 4 5 by blast
qed

lemma example_Entity_init:
  "\<exists>e. Entity_init example_gateways 0 example_slot (new_obj c) = Inr e"
  by (simp add: Entity_init_def example_slot_def example_gateways_def handle_or_default_def
        example_handle_parts py_index_def py_getitem_def)

lemma example_Player_init:
  "\<exists>e. Player_init example_gateways Map.empty 1 example_detail Map.empty self = Inr e"
  by (simp add: Player_init_def example_detail_def example_gateways_def py_getitem_def)

theorem compose_variant_witness:
  "(\<exists>e. compose example_gateways Map.empty 0 example_slot 0 None 1 (Some example_detail)
           Map.empty = Inr e \<and> cls_of e = Computer)
   \<and> (\<exists>e. compose example_gateways Map.empty 0 example_slot 0 (Some example_init) 1
           (Some example_detail) Map.empty = Inr e \<and> cls_of e = Participant)
   \<and> (\<exists>e. compose example_gateways Map.empty 0 example_slot 0 (Some example_init) 1 None
           Map.empty = Inr e \<and> cls_of e = Observer)
   \<and> compose example_gateways Map.empty 0 example_slot 0 None 1 None Map.empty
       = Inl InconsistentInput"
proof -
  obtain e0 where e0: "Entity_init example_gateways 0 example_slot (new_obj Computer) = Inr e0"
    using example_Entity_init by blast
  obtain e1 where e1: "Player_init example_gateways Map.empty 1 example_detail Map.empty e0 = Inr e1"
    using example_Player_init by blast
  obtain f0 where f0: "Entity_init example_gateways 0 example_slot (new_obj Participant) = Inr f0"
    using example_Entity_init by blast
  obtain f1 where f1: "Player_init example_gateways Map.empty 1 example_detail Map.empty
      (User_init 0 example_init f0) = Inr f1"
    using example_Player_init by blast
  obtain g0 where g0: "Entity_init example_gateways 0 example_slot (new_obj Observer) = Inr g0"
    using example_Entity_init by blast
  have c: "\<exists>e. compose example_gateways Map.empty 0 example_slot 0 None 1 (Some example_detail)
           Map.empty = Inr e"
    using e0 e1 by (simp add: compose_def Computer_init_def)
  have p: "\<exists>e. compose example_gateways Map.empty 0 example_slot 0 (Some example_init) 1
           (Some example_detail) Map.empty = Inr e"
    using f0 f1 by (simp add: compose_def Participant_init_def)
  have ob: "\<exists>e. compose example_gateways Map.empty 0 example_slot 0 (Some example_init) 1 None
           Map.empty = Inr e"
    using g0 by (simp add: compose_def Observer_init_def)
  from c obtain ec where ec: "compose example_gateways Map.empty 0 example_slot 0 None 1
      (Some example_detail) Map.empty = Inr ec" by blast
  from p obtain ep where ep: "compose example_gateways Map.empty 0 example_slot 0
      (Some example_init) 1 (Some example_detail) Map.empty = Inr ep" by blast
  from ob obtain eo where eo: "compose example_gateways Map.empty 0 example_slot 0
      (Some example_init) 1 None Map.empty = Inr eo" by blast
  note c1 = compose_variant [of example_gateways Map.empty 0 example_slot 0 1 Map.empty
                          example_detail ec example_init None None]
  note c2 = compose_variant [of example_gateways Map.empty 0 example_slot 0 1 Map.empty
                          example_detail ep example_init None None]
  note c3 = compose_variant [of example_gateways Map.empty 0 example_slot 0 1 Map.empty
                          example_detail eo example_init None None]
  have 1: "cls_of ec = Computer" using c1 ec by blast
  have 2: "cls_of ep = Participant" using c2 ep by blast
  have 3: "cls_of eo = Observer" using c3 eo by blast
  have 4: "compose example_gateways Map.empty 0 example_slot 0 None 1 None Map.empty
       = Inl InconsistentInput" using c1 by blast
  show ?thesis using ec ep eo 1 2 3 4 by blast
qed

section \<open>Team fingerprint\<close>











section \<open>The map descriptor\<close>

lemmas decoder_defs = MapInfo_init_def MapInfo_run_def prefix_steps_def small_preview_steps_def large_preview_steps_def load_screen_steps_def read_unknown6_def assign_def assign_const_def cond_def version_ge_def read_uint32_def read_uint16_def read_uint8_def read_le_def read_bytes_def read_string_def read_cstring_def ByteDecoder_init_def length_of_def example_map_def example_prefix_def example_tail_def u32_def cstr_def new_MapInfo_def Let_def

lemma example_map_run:
  "MapInfo_run Inr example_map = Inr (example_decoded, \<lparr>contents_of = example_map, tell = 108\<rparr>)"
  by (simp add: decoder_defs example_decoded_def)

lemma read_bytes_Inr:
  "read_bytes n d = Inr (bs, d') \<longleftrightarrow>
     (tell d + n \<le> length (contents_of d) \<and> bs = take n (drop (tell d) (contents_of d))
      \<and> d' = d\<lparr>tell := tell d + n\<rparr>)"
  by (auto simp: read_bytes_def length_of_def)

lemma read_le_Inr:
  "read_le n d = Inr (v, d') \<longleftrightarrow>
     (tell d + n \<le> length (contents_of d)
      \<and> v = le_value (take n (drop (tell d) (contents_of d)))
      \<and> d' = d\<lparr>tell := tell d + n\<rparr>)"
  by (auto simp: read_le_def bind_err_Inr_iff read_bytes_Inr)

lemma read_cstring_Inr:
  "read_cstring d = Inr (p, d') \<longleftrightarrow>
     (p = takeWhile (\<lambda>c. c \<noteq> CHR 0x00) (drop (tell d) (contents_of d))
      \<and> length p < length (contents_of d) - tell d
      \<and> d' = d\<lparr>tell := tell d + length p + 1\<rparr>)"
  by (auto simp: read_cstring_def Let_def)

lemma assign_Inr:
  "assign rd upd (m, d) = Inr (m', d') \<longleftrightarrow> (\<exists>v. rd d = Inr (v, d') \<and> m' = upd v m)"
  by (auto simp: assign_def bind_err_Inr_iff)

lemma run_steps_append:
  "run_steps (xs @ ys) s = bind_err (run_steps xs s) (run_steps ys)"
  by (induction xs arbitrary: s) (auto simp: bind_err_def split: sum.splits)

lemma keeps_assign: "(\<And>v m. P m \<Longrightarrow> P (upd v m)) \<Longrightarrow> keeps P (assign rd upd)"
  by (auto simp: keeps_def assign_Inr)

lemma keeps_assign_const: "(\<And>m. P m \<Longrightarrow> P (upd m)) \<Longrightarrow> keeps P (assign_const upd)"
  by (auto simp: keeps_def assign_const_def)

lemma keeps_cond: "keeps P st \<Longrightarrow> keeps P (cond b st)"
  by (auto simp: keeps_def cond_def split: if_splits)

lemma keeps_run_steps: "list_all (keeps P) sts \<Longrightarrow> keeps P (run_steps sts)"
proof (induction sts)
  case Nil
  then show ?case by (simp add: keeps_def)
next
  case (Cons st sts)
  then have a: "keeps P st" and b: "keeps P (run_steps sts)" by simp_all
  show ?case
    unfolding keeps_def
  proof (intro allI impI)
    fix m d m' d'
    assume P: "P m" and r: "run_steps (st # sts) (m, d) = Inr (m', d')"
    from r obtain m1 d1 where 1: "st (m, d) = Inr (m1, d1)"
      and 2: "run_steps sts (m1, d1) = Inr (m', d')"
      by (auto simp: bind_err_Inr_iff)
    from a P 1 have "P m1" unfolding keeps_def by blast
    with b 2 show "P m'" unfolding keeps_def by blast
  qed
qed

lemma keeps_unknown6:
  "(\<And>v m. P m \<Longrightarrow> P (m\<lparr>unknown6 := Some v\<rparr>)) \<Longrightarrow> keeps P (read_unknown6 utf8)"
  by (auto simp: keeps_def read_unknown6_def bind_err_Inr_iff)

lemmas keeps_intros = keeps_assign keeps_assign_const keeps_cond keeps_run_steps keeps_unknown6

lemma prefix_steps_keep_tail: "list_all (keeps tail_unread) (prefix_steps utf8)"
  unfolding prefix_steps_def small_preview_steps_def large_preview_steps_def load_screen_steps_def
  by (auto intro!: keeps_intros simp: tail_unread_def)

lemma prefix_steps_keep_logged: "list_all (keeps (\<lambda>m. logged m = [])) (prefix_steps utf8)"
  unfolding prefix_steps_def small_preview_steps_def large_preview_steps_def load_screen_steps_def
  by (auto intro!: keeps_intros)

lemma prefix_steps_keep_version: "list_all (keeps (\<lambda>m. version m \<noteq> None)) (prefix_steps utf8)"
  unfolding prefix_steps_def small_preview_steps_def large_preview_steps_def load_screen_steps_def
  by (auto intro!: keeps_intros)

lemma read_string_4:
  "4 \<le> length contents \<Longrightarrow>
     read_string 4 (ByteDecoder_init contents)
       = Inr (take 4 contents, \<lparr>contents_of = contents, tell = 4\<rparr>)"
  by (simp add: read_string_def read_bytes_def ByteDecoder_init_def length_of_def)

text \<open>
  C4. When the first four bytes are not the magic tag, the constructor reads nothing more
  (the cursor stays at offset 4), raises nothing, assigns no attribute, not even the
  version, and reports the tag in one logged warning.
\<close>

theorem MapInfo_init_bad_magic:
  assumes "4 \<le> length contents" and "take 4 contents \<noteq> ''MapI''"
  shows "MapInfo_run utf8 contents
           = Inr (new_MapInfo\<lparr>logged := [(Warn, ''Invalid MapInfo file: '' @ take 4 contents)]\<rparr>,
                  \<lparr>contents_of = contents, tell = 4\<rparr>)
         \<and> MapInfo_init utf8 contents
           = Inr (new_MapInfo\<lparr>logged := [(Warn, ''Invalid MapInfo file: '' @ take 4 contents)]\<rparr>)
         \<and> version (new_MapInfo\<lparr>logged := [(Warn, ''Invalid MapInfo file: '' @ take 4 contents)]\<rparr>)
           = None"
  using assms by (simp add: MapInfo_init_def MapInfo_run_def read_string_4 new_MapInfo_def)

lemma MapInfo_run_good_magic:
  assumes "MapInfo_run utf8 contents = Inr (m, d)" and "take 4 contents = ''MapI''"
  shows "run_steps (prefix_steps utf8) (new_MapInfo, \<lparr>contents_of = contents, tell = 4\<rparr>) = Inr (m, d)"
proof -
  from assms(1) obtain magic d0 where r: "read_string 4 (ByteDecoder_init contents) = Inr (magic, d0)"
    by (auto simp: MapInfo_run_def bind_err_Inr_iff)
  then have "magic = take 4 contents" "d0 = \<lparr>contents_of = contents, tell = 4\<rparr>"
    by (auto simp: read_string_def read_bytes_Inr ByteDecoder_init_def)
  with r assms show ?thesis by (simp add: MapInfo_run_def)
qed

lemma MapInfo_run_cases:
  assumes "MapInfo_run utf8 contents = Inr (m, d)"
  shows "(take 4 contents \<noteq> ''MapI'' \<and> m = new_MapInfo\<lparr>logged := [(Warn, ''Invalid MapInfo file: '' @ take 4 contents)]\<rparr>)
       \<or> (take 4 contents = ''MapI'' \<and> run_steps (prefix_steps utf8) (new_MapInfo, \<lparr>contents_of = contents, tell = 4\<rparr>) = Inr (m, d))"
proof -
  from assms obtain magic d0 where r: "read_string 4 (ByteDecoder_init contents) = Inr (magic, d0)"
    by (auto simp: MapInfo_run_def bind_err_Inr_iff)
  then have "magic = take 4 contents" "d0 = \<lparr>contents_of = contents, tell = 4\<rparr>"
    by (auto simp: read_string_def read_bytes_Inr ByteDecoder_init_def)
  with r assms show ?thesis by (auto simp: MapInfo_run_def split: if_splits)
qed

lemma MapInfo_run_tail_unread:
  assumes "MapInfo_run utf8 contents = Inr (m, d)"
  shows "tail_unread m"
proof -
  have n: "tail_unread new_MapInfo" by (simp add: tail_unread_def new_MapInfo_def)
  from MapInfo_run_cases [OF assms] show ?thesis
  proof
    assume "take 4 contents \<noteq> ''MapI'' \<and> m = new_MapInfo\<lparr>logged := [(Warn, ''Invalid MapInfo file: '' @ take 4 contents)]\<rparr>"
    then show ?thesis by (simp add: tail_unread_def new_MapInfo_def)
  next
    assume "take 4 contents = ''MapI'' \<and> run_steps (prefix_steps utf8) (new_MapInfo, \<lparr>contents_of = contents, tell = 4\<rparr>) = Inr (m, d)"
    then show ?thesis
      using keeps_run_steps [OF prefix_steps_keep_tail, of utf8] n unfolding keeps_def by blast
  qed
qed

lemma prefix_steps_sets:
  assumes "run_steps (prefix_steps utf8) (m0, d0) = Inr (m, d)" and "logged m0 = []"
  shows "version m \<noteq> None \<and> player_count m \<noteq> None \<and> logged m = []"
proof -
  have l: "logged m = []"
    using keeps_run_steps [OF prefix_steps_keep_logged, of utf8] assms unfolding keeps_def by blast
  obtain rest where rest: "prefix_steps utf8 = assign read_uint32 (\<lambda>v self. self\<lparr>version := Some v\<rparr>) # rest"
    by (simp add: prefix_steps_def)
  have kr: "list_all (keeps (\<lambda>m. version m \<noteq> None)) rest"
    using prefix_steps_keep_version [of utf8] rest by simp
  from assms(1) rest obtain m1 d1 where 1: "assign read_uint32 (\<lambda>v self. self\<lparr>version := Some v\<rparr>) (m0, d0) = Inr (m1, d1)"
    and 2: "run_steps rest (m1, d1) = Inr (m, d)"
    by (auto simp: bind_err_Inr_iff)
  from 1 have "version m1 \<noteq> None" by (auto simp: assign_Inr)
  then have v: "version m \<noteq> None"
    using keeps_run_steps [OF kr] 2 unfolding keeps_def by blast
  obtain front where front: "prefix_steps utf8 = front @ [assign read_uint32 (\<lambda>v self. self\<lparr>player_count := Some v\<rparr>)]"
    by (simp add: prefix_steps_def)
  from assms(1) front obtain m2 d2 where "assign read_uint32 (\<lambda>v self. self\<lparr>player_count := Some v\<rparr>) (m2, d2) = Inr (m, d)"
    by (auto simp: run_steps_append bind_err_Inr_iff)
  then have p: "player_count m \<noteq> None" by (auto simp: assign_Inr)
  from l v p show ?thesis by simp
qed

text \<open>
  C1, amended. The constructor has no parameter besides the buffer and always returns at
  line 632: whenever it succeeds, none of the attributes of the per-slot descriptors, the
  start locations and the two relation matrices is assigned; and when the magic tag is
  valid, success means that the version and the number of players are set and that
  nothing was logged.
\<close>

theorem MapInfo_init_stops_after_player_count:
  assumes "MapInfo_init utf8 contents = Inr m"
  shows "info_players m = None \<and> start_locations m = None \<and> start_location_used m = None
         \<and> alliance_flags_length m = None \<and> alliance_flags m = None
         \<and> advanced_start_locations m = None \<and> advanced_teams_flags m = None
         \<and> advanced_teams_count2 m = None \<and> enemy_flags_length m = None
         \<and> enemy_flags m = None
         \<and> (take 4 contents = ''MapI'' \<longrightarrow>
               version m \<noteq> None \<and> player_count m \<noteq> None \<and> logged m = [])"
proof -
  from assms obtain d where r: "MapInfo_run utf8 contents = Inr (m, d)"
    by (auto simp: MapInfo_init_def bind_err_Inr_iff)
  have t: "tail_unread m" using MapInfo_run_tail_unread [OF r] .
  have "take 4 contents = ''MapI'' \<longrightarrow>
               version m \<noteq> None \<and> player_count m \<noteq> None \<and> logged m = []"
  proof
    assume g: "take 4 contents = ''MapI''"
    have "logged new_MapInfo = []" by (simp add: new_MapInfo_def)
    from prefix_steps_sets [OF MapInfo_run_good_magic [OF r g] this]
    show "version m \<noteq> None \<and> player_count m \<noteq> None \<and> logged m = []" .
  qed
  with t show ?thesis by (simp add: tail_unread_def)
qed

lemma assign_simp:
  "assign rd upd (m, d) = bind_err (rd d) (\<lambda>(v, d'). Inr (upd v m, d'))"
  by (simp add: assign_def)

text \<open>
  C2, amended. For each of the two previews the type is read first, the path is read from
  the stream exactly when the type is 2, and otherwise the path is the empty string and
  the cursor does not move beyond the four bytes of the type. For the loading screen the
  path is read whatever the type is. Reading a path consumes its characters and the
  terminating null byte.
\<close>

theorem preview_path_iff_custom:
  "(run_steps small_preview_steps (m, d) = Inr (m', d') \<longleftrightarrow>
     (\<exists>t d1. read_uint32 d = Inr (t, d1) \<and>
        (if t = 2
         then \<exists>p. read_cstring d1 = Inr (p, d')
                \<and> m' = m\<lparr>small_preview_type := Some t, small_preview_path := Some p\<rparr>
         else d' = d1 \<and> m' = m\<lparr>small_preview_type := Some t, small_preview_path := Some []\<rparr>)))
   \<and> (run_steps large_preview_steps (m, d) = Inr (m', d') \<longleftrightarrow>
     (\<exists>t d1. read_uint32 d = Inr (t, d1) \<and>
        (if t = 2
         then \<exists>p. read_cstring d1 = Inr (p, d')
                \<and> m' = m\<lparr>large_preview_type := Some t, large_preview_path := Some p\<rparr>
         else d' = d1 \<and> m' = m\<lparr>large_preview_type := Some t, large_preview_path := Some []\<rparr>)))
   \<and> (run_steps load_screen_steps (m, d) = Inr (m', d') \<longleftrightarrow>
     (\<exists>t d1 p. read_uint32 d = Inr (t, d1) \<and> read_cstring d1 = Inr (p, d')
        \<and> m' = m\<lparr>load_screen_type := Some t, load_screen_path := Some p\<rparr>))
   \<and> (\<forall>t d1. read_uint32 d = Inr (t, d1) \<longrightarrow> tell d1 = tell d + 4)
   \<and> (\<forall>p d1. read_cstring d = Inr (p, d1) \<longrightarrow> tell d1 = tell d + length p + 1)"
proof -
  have 1: "run_steps small_preview_steps (m, d) = Inr (m', d') \<longleftrightarrow>
     (\<exists>t d1. read_uint32 d = Inr (t, d1) \<and>
        (if t = 2
         then \<exists>p. read_cstring d1 = Inr (p, d')
                \<and> m' = m\<lparr>small_preview_type := Some t, small_preview_path := Some p\<rparr>
         else d' = d1 \<and> m' = m\<lparr>small_preview_type := Some t, small_preview_path := Some []\<rparr>))"
  proof (cases "read_uint32 d")
    case (Inl err)
    then show ?thesis by (simp add: small_preview_steps_def assign_simp)
  next
    case (Inr x)
    obtain t d1 where x: "x = (t, d1)" by (cases x)
    show ?thesis
    proof (cases "t = 2")
      case True
      show ?thesis
      proof (cases "read_cstring d1")
        case (Inl err)
        then show ?thesis
          using Inr x True by (simp add: small_preview_steps_def assign_simp assign_const_def cond_def)
      next
        case r: (Inr y)
        obtain p d2 where y: "y = (p, d2)" by (cases y)
        show ?thesis
          using Inr x True r y
          by (auto simp: small_preview_steps_def assign_simp assign_const_def cond_def)
      qed
    next
      case False
      then show ?thesis
        using Inr x
        by (auto simp: small_preview_steps_def assign_simp assign_const_def cond_def)
    qed
  qed
  have 2: "run_steps large_preview_steps (m, d) = Inr (m', d') \<longleftrightarrow>
     (\<exists>t d1. read_uint32 d = Inr (t, d1) \<and>
        (if t = 2
         then \<exists>p. read_cstring d1 = Inr (p, d')
                \<and> m' = m\<lparr>large_preview_type := Some t, large_preview_path := Some p\<rparr>
         else d' = d1 \<and> m' = m\<lparr>large_preview_type := Some t, large_preview_path := Some []\<rparr>))"
  proof (cases "read_uint32 d")
    case (Inl err)
    then show ?thesis by (simp add: large_preview_steps_def assign_simp)
  next
    case (Inr x)
    obtain t d1 where x: "x = (t, d1)" by (cases x)
    show ?thesis
    proof (cases "t = 2")
      case True
      show ?thesis
      proof (cases "read_cstring d1")
        case (Inl err)
        then show ?thesis
          using Inr x True by (simp add: large_preview_steps_def assign_simp assign_const_def cond_def)
      next
        case r: (Inr y)
        obtain p d2 where y: "y = (p, d2)" by (cases y)
        show ?thesis
          using Inr x True r y
          by (auto simp: large_preview_steps_def assign_simp assign_const_def cond_def)
      qed
    next
      case False
      then show ?thesis
        using Inr x
        by (auto simp: large_preview_steps_def assign_simp assign_const_def cond_def)
    qed
  qed
  have 3: "run_steps load_screen_steps (m, d) = Inr (m', d') \<longleftrightarrow>
     (\<exists>t d1 p. read_uint32 d = Inr (t, d1) \<and> read_cstring d1 = Inr (p, d')
        \<and> m' = m\<lparr>load_screen_type := Some t, load_screen_path := Some p\<rparr>)"
  proof (cases "read_uint32 d")
    case (Inl err)
    then show ?thesis by (simp add: load_screen_steps_def assign_simp)
  next
    case (Inr x)
    obtain t d1 where x: "x = (t, d1)" by (cases x)
    show ?thesis
    proof (cases "read_cstring d1")
      case (Inl err)
      then show ?thesis using Inr x by (simp add: load_screen_steps_def assign_simp)
    next
      case r: (Inr y)
      obtain p d2 where y: "y = (p, d2)" by (cases y)
      show ?thesis using Inr x r y by (auto simp: load_screen_steps_def assign_simp)
    qed
  qed
  have 4: "\<forall>t d1. read_uint32 d = Inr (t, d1) \<longrightarrow> tell d1 = tell d + 4"
    by (auto simp: read_uint32_def read_le_Inr)
  have 5: "\<forall>p d1. read_cstring d = Inr (p, d1) \<longrightarrow> tell d1 = tell d + length p + 1"
    by (auto simp: read_cstring_Inr)
  show ?thesis using 1 2 3 4 5 by blast
qed

theorem MapInfo_init_bad_magic_witness:
  "4 \<le> length ''MapX\<newline>'' \<and> take 4 ''MapX\<newline>'' \<noteq> ''MapI''
   \<and> MapInfo_init Inr ''MapX\<newline>''
       = Inr (new_MapInfo\<lparr>logged := [(Warn, ''Invalid MapInfo file: MapX'')]\<rparr>)"
  using MapInfo_init_bad_magic [of "''MapX\<newline>''" Inr] by simp

text \<open>
  C1, as the claim states it, fails: the example buffer holds a well-formed tail, and the
  constructor stops at offset 108 of 150 with the players and both matrices unassigned;
  it takes no argument by which a caller could ask for more.
\<close>

theorem MapInfo_init_leaves_tail_example:
  "MapInfo_run Inr example_map
     = Inr (example_decoded, \<lparr>contents_of = example_map, tell = 108\<rparr>)
   \<and> length example_map = 150
   \<and> info_players example_decoded = None
   \<and> alliance_flags example_decoded = None
   \<and> enemy_flags example_decoded = None"
  by (simp add: example_map_run)
     (simp add: example_decoded_def new_MapInfo_def example_map_def example_prefix_def
        example_tail_def u32_def cstr_def)

theorem MapInfo_init_stops_after_player_count_witness:
  "MapInfo_init Inr example_map = Inr example_decoded
   \<and> take 4 example_map = ''MapI''
   \<and> player_count example_decoded \<noteq> None
   \<and> info_players example_decoded = None"
proof -
  have h: "MapInfo_init Inr example_map = Inr example_decoded"
    by (simp add: MapInfo_init_def example_map_run)
  have g: "take 4 example_map = ''MapI''"
    by (simp add: example_map_def example_prefix_def)
  show ?thesis
    using h g MapInfo_init_stops_after_player_count [OF h] by simp
qed

text \<open>
  C2, as the claim states it, fails for the loading screen: in the example buffer the
  load screen type is 0, and the path \<^verbatim>\<open>load\<close> is read all the same, moving the cursor
  from offset 61 to offset 70.
\<close>

theorem load_screen_path_read_example:
  "run_steps load_screen_steps (new_MapInfo, \<lparr>contents_of = example_map, tell = 61\<rparr>)
     = Inr (new_MapInfo\<lparr>load_screen_type := Some 0, load_screen_path := Some ''load''\<rparr>,
            \<lparr>contents_of = example_map, tell = 70\<rparr>)
   \<and> load_screen_type example_decoded = Some 0
   \<and> load_screen_path example_decoded = Some ''load''"
  by (simp add: load_screen_steps_def assign_def read_uint32_def read_le_def read_bytes_def
        read_cstring_def length_of_def example_map_def example_prefix_def example_tail_def
        u32_def cstr_def example_decoded_def new_MapInfo_def Let_def)

theorem preview_path_iff_custom_witness:
  "read_uint32 \<lparr>contents_of = example_map, tell = 16\<rparr>
     = Inr (0, \<lparr>contents_of = example_map, tell = 20\<rparr>)
   \<and> run_steps small_preview_steps (new_MapInfo, \<lparr>contents_of = example_map, tell = 16\<rparr>)
     = Inr (new_MapInfo\<lparr>small_preview_type := Some 0, small_preview_path := Some []\<rparr>,
            \<lparr>contents_of = example_map, tell = 20\<rparr>)"
proof -
  have r: "read_uint32 \<lparr>contents_of = example_map, tell = 16\<rparr>
     = Inr (0, \<lparr>contents_of = example_map, tell = 20\<rparr>)"
    by (simp add: read_uint32_def read_le_def read_bytes_def length_of_def example_map_def
          example_prefix_def example_tail_def u32_def cstr_def)
  show ?thesis
    using r preview_path_iff_custom
      [of new_MapInfo "\<lparr>contents_of = example_map, tell = 16\<rparr>"
          "new_MapInfo\<lparr>small_preview_type := Some 0, small_preview_path := Some []\<rparr>"
          "\<lparr>contents_of = example_map, tell = 20\<rparr>"]
    by auto
qed

section \<open>Relation matrices\<close>

lemma ceil_div8_eq: "ceil_div8 n = (n + 7) div 8"
proof -
  have "(of_nat n :: rat) / 8 = of_int (int n) / of_int 8" by simp
  then have "\<lceil>(of_nat n :: rat) / 8\<rceil> = - (- int n div 8)"
    by (simp only: ceiling_divide_eq_div)
  then show ?thesis unfolding ceil_div8_def by (simp) 
qed

lemma be_value_snoc: "be_value (bs @ [c]) = 256 * be_value bs + of_char c"
  by (simp add: be_value_def)

lemma alliance_steps_Inr:
  "run_steps alliance_steps (m, d) = Inr (m', d') \<longleftrightarrow>
     (\<exists>n d1. read_uint32 d = Inr (n, d1)
        \<and> tell d1 + (n + 7) div 8 \<le> length (contents_of d1)
        \<and> m' = m\<lparr>alliance_flags_length := Some n,
                  alliance_flags :=
                    Some (be_value (take ((n + 7) div 8) (drop (tell d1) (contents_of d1))))\<rparr>
        \<and> d' = d1\<lparr>tell := tell d1 + (n + 7) div 8\<rparr>)"
proof (cases "read_uint32 d")
  case (Inl err)
  then show ?thesis by (simp add: alliance_steps_def assign_simp)
next
  case (Inr x)
  obtain n d1 where x: "x = (n, d1)" by (cases x)
  show ?thesis
    using Inr x
    by (auto simp: alliance_steps_def assign_simp read_alliance_flags_def read_uint_def
          bind_err_Inr_iff read_bytes_Inr ceil_div8_eq)
qed

lemma enemy_steps_Inr:
  "run_steps enemy_steps (m, d) = Inr (m', d') \<longleftrightarrow>
     (\<exists>n d1. read_uint32 d = Inr (n, d1)
        \<and> tell d1 + (n + 7) div 8 \<le> length (contents_of d1)
        \<and> m' = m\<lparr>enemy_flags_length := Some n,
                  enemy_flags :=
                    Some (be_value (take ((n + 7) div 8) (drop (tell d1) (contents_of d1))))\<rparr>
        \<and> d' = d1\<lparr>tell := tell d1 + (n + 7) div 8\<rparr>)"
proof (cases "read_uint32 d")
  case (Inl err)
  then show ?thesis by (simp add: enemy_steps_def assign_simp)
next
  case (Inr x)
  obtain n d1 where x: "x = (n, d1)" by (cases x)
  show ?thesis
    using Inr x
    by (auto simp: enemy_steps_def assign_simp read_enemy_flags_def read_uint_def
          bind_err_Inr_iff read_bytes_Inr ceil_div8_eq)
qed

lemma read_many_numeral:
  "read_many (numeral k) rd d =
     bind_err (rd d) (\<lambda>(x, d1).
     bind_err (read_many (pred_numeral k) rd d1) (\<lambda>(xs, d2). Inr (x # xs, d2)))"
  by (simp add: numeral_eq_Suc)

lemma example_tail_run:
  "run_steps tail_steps (example_decoded, \<lparr>contents_of = example_map, tell = 108\<rparr>)
     = Inr (example_decoded
              \<lparr>info_players := Some [], start_locations := Some [1, 2, 3],
               start_location_used := Some 3, alliance_flags_length := Some 4,
               alliance_flags := Some 2, advanced_start_locations := Some [],
               advanced_teams_flags := Some [], advanced_teams_count2 := Some 0,
               enemy_flags_length := Some 4, enemy_flags := Some 2\<rparr>,
            \<lparr>contents_of = example_map, tell = 150\<rparr>)"
  by (simp add: tail_steps_def alliance_steps_def enemy_steps_def read_players_def
        read_alliance_flags_def read_enemy_flags_def warn_unread_def read_uint32_list_def
        read_uint_def be_value_def ceil_div8_eq assign_def read_uint32_def read_le_def
        read_bytes_def length_of_def example_map_def example_prefix_def example_tail_def
        u32_def cstr_def example_decoded_def new_MapInfo_def read_many_numeral)

text \<open>
  C3, as the claim states it, fails: the constructor stops at offset 108 of the 150 bytes
  of the example buffer and assigns neither matrix, although the buffer holds both: the
  statements after the return, run on the state the constructor leaves, would read the
  value 2 for each.
\<close>

theorem relation_matrices_unread_example:
  "(case MapInfo_run Inr example_map of
      Inl err \<Rightarrow> False
    | Inr (m, d) \<Rightarrow>
        alliance_flags m = None \<and> enemy_flags m = None \<and> tell d = 108 \<and> length_of d = 150
        \<and> (case run_steps tail_steps (m, d) of
              Inl err \<Rightarrow> False
            | Inr (m', d') \<Rightarrow>
                alliance_flags m' = Some 2 \<and> enemy_flags m' = Some 2 \<and> tell d' = 150))"
proof -
  have 2: "alliance_flags example_decoded = None \<and> enemy_flags example_decoded = None"
    by (simp add: example_decoded_def new_MapInfo_def)
  have 3: "length example_map = 150"
    by (simp add: example_map_def example_prefix_def example_tail_def u32_def cstr_def)
  show ?thesis using 2 3 by (simp add: example_map_run example_tail_run length_of_def)
qed

text \<open>
  C3, amended. The statements for a relation matrix follow the constructor's return and
  are never run by it: the constructor assigns neither matrix. As written, they read a
  bit count \<open>n\<close> from the stream and then consume \<open>ceil(n/8)\<close> bytes, which they store
  as one big-endian integer, not expanded into pairs.
\<close>

theorem relation_matrix_layout:
  "(run_steps alliance_steps (m, d) = Inr (m', d') \<longleftrightarrow>
     (\<exists>n d1. read_uint32 d = Inr (n, d1)
        \<and> tell d1 + (n + 7) div 8 \<le> length (contents_of d1)
        \<and> m' = m\<lparr>alliance_flags_length := Some n,
                  alliance_flags :=
                    Some (be_value (take ((n + 7) div 8) (drop (tell d1) (contents_of d1))))\<rparr>
        \<and> d' = d1\<lparr>tell := tell d1 + (n + 7) div 8\<rparr>))
   \<and> (run_steps enemy_steps (m, d) = Inr (m', d') \<longleftrightarrow>
     (\<exists>n d1. read_uint32 d = Inr (n, d1)
        \<and> tell d1 + (n + 7) div 8 \<le> length (contents_of d1)
        \<and> m' = m\<lparr>enemy_flags_length := Some n,
                  enemy_flags :=
                    Some (be_value (take ((n + 7) div 8) (drop (tell d1) (contents_of d1))))\<rparr>
        \<and> d' = d1\<lparr>tell := tell d1 + (n + 7) div 8\<rparr>))
   \<and> be_value [] = 0
   \<and> be_value (bs @ [c]) = 256 * be_value bs + of_char c
   \<and> (MapInfo_init utf8 contents = Inr mi \<longrightarrow>
        alliance_flags_length mi = None \<and> alliance_flags mi = None
        \<and> enemy_flags_length mi = None \<and> enemy_flags mi = None)"
proof -
  have 2: "MapInfo_init utf8 contents = Inr mi \<longrightarrow>
        alliance_flags_length mi = None \<and> alliance_flags mi = None
        \<and> enemy_flags_length mi = None \<and> enemy_flags mi = None"
  proof
    assume "MapInfo_init utf8 contents = Inr mi"
    then obtain dd where "MapInfo_run utf8 contents = Inr (mi, dd)"
      by (auto simp: MapInfo_init_def bind_err_Inr_iff)
    from MapInfo_run_tail_unread [OF this]
    show "alliance_flags_length mi = None \<and> alliance_flags mi = None
        \<and> enemy_flags_length mi = None \<and> enemy_flags mi = None"
      by (simp add: tail_unread_def)
  qed
  have 3: "be_value [] = 0" by (simp add: be_value_def)
  note 4 = alliance_steps_Inr [of m d m' d'] enemy_steps_Inr [of m d m' d']
    be_value_snoc [of bs c]
  show ?thesis
    by (intro conjI) (rule 2 3 4)+
qed

theorem relation_matrix_layout_witness:
  "MapInfo_init Inr example_map = Inr example_decoded
   \<and> alliance_flags example_decoded = None \<and> enemy_flags example_decoded = None
   \<and> read_uint32 \<lparr>contents_of = example_map, tell = 128\<rparr>
       = Inr (4, \<lparr>contents_of = example_map, tell = 132\<rparr>)
   \<and> run_steps alliance_steps (example_decoded, \<lparr>contents_of = example_map, tell = 128\<rparr>)
       = Inr (example_decoded\<lparr>alliance_flags_length := Some 4, alliance_flags := Some 2\<rparr>,
              \<lparr>contents_of = example_map, tell = 133\<rparr>)"
proof -
  have h: "MapInfo_init Inr example_map = Inr example_decoded"
    by (simp add: MapInfo_init_def example_map_run)
  have r: "read_uint32 \<lparr>contents_of = example_map, tell = 128\<rparr>
       = Inr (4, \<lparr>contents_of = example_map, tell = 132\<rparr>)"
    by (simp add: read_uint32_def read_le_def read_bytes_def length_of_def example_map_def
          example_prefix_def example_tail_def u32_def cstr_def)
  have b: "be_value (take ((4 + 7) div 8)
             (drop (tell \<lparr>contents_of = example_map, tell = 132\<rparr>)
                (contents_of \<lparr>contents_of = example_map, tell = 132\<rparr>))) = 2"
    by (simp add: be_value_def example_map_def example_prefix_def example_tail_def u32_def
          cstr_def)
  have l: "tell \<lparr>contents_of = example_map, tell = 132\<rparr> + (4 + 7) div 8
             \<le> length (contents_of \<lparr>contents_of = example_map, tell = 132\<rparr>)"
    by (simp add: example_map_def example_prefix_def example_tail_def u32_def cstr_def)
  note t = relation_matrix_layout
      [of example_decoded "\<lparr>contents_of = example_map, tell = 128\<rparr>"
          "example_decoded\<lparr>alliance_flags_length := Some 4, alliance_flags := Some 2\<rparr>"
          "\<lparr>contents_of = example_map, tell = 133\<rparr>" "[]" "CHR 0x02" Inr example_map
          example_decoded]
  from t h have n: "alliance_flags example_decoded = None \<and> enemy_flags example_decoded = None"
    by blast
  have "run_steps alliance_steps (example_decoded, \<lparr>contents_of = example_map, tell = 128\<rparr>)
       = Inr (example_decoded\<lparr>alliance_flags_length := Some 4, alliance_flags := Some 2\<rparr>,
              \<lparr>contents_of = example_map, tell = 133\<rparr>)"
    using t r b l by (intro iffD2 [OF conjunct1 [OF t]] exI [of _ 4]
        exI [of _ "\<lparr>contents_of = example_map, tell = 132\<rparr>"]) simp
  with h n r show ?thesis by blast
qed

end
